theory Spec2Isabelle
  imports Complex_Main "HOL-Library.Log_Nat" "HOL-Library.Sublist"
begin

section \<open>Python values\<close>

text \<open>
  The dashboard script \<^verbatim>\<open>app.py\<close> reads a spreadsheet into a pandas table, cleans
  two columns cell by cell, filters the rows by two thresholds and shows three key
  figures. The cells are Python objects; the embedding keeps the ones a
  spreadsheet cell can hold, and the NumPy scalars, which are the only values the
  dtype test of \<^verbatim>\<open>clean_reviews\<close> accepts.

  A Python \<^verbatim>\<open>str\<close> is a sequence of Unicode code points, so it is a list of
  naturals here: the sentinels of the script are Chinese words, which are not
  characters of the 8-bit type \<^typ>\<open>char\<close>. \<open>ascii\<close> reads an ASCII literal.
\<close>

type_synonym pystr = "nat list"

definition ascii :: "string \<Rightarrow> pystr" where
  "ascii s = map of_char s"

text \<open>
  A double is a rational number, an infinity or NaN. The two zeros of IEEE 754
  are one value: nothing in the script tells them apart. The type is polymorphic
  in the carrier so that the columns computed with \<^verbatim>\<open>log10\<close> and \<^verbatim>\<open>sqrt\<close> can
  hold real numbers.
\<close>

datatype 'a npfloat = Finite 'a | PosInf | NegInf | NaN

datatype pyval =
    PStr pystr
  | PInt int
  | PFloat "rat npfloat"
  | PBool bool
  | PNone
  | NpInt int
  | NpFloat "rat npfloat"

subsection \<open>String methods\<close>

text \<open>
  \<^verbatim>\<open>str.strip()\<close> removes the Unicode whitespace of \<^verbatim>\<open>str.isspace\<close> from both
  ends.
\<close>

definition py_isspace :: "nat \<Rightarrow> bool" where
  "py_isspace c \<longleftrightarrow>
     (9 \<le> c \<and> c \<le> 13) \<or> (28 \<le> c \<and> c \<le> 32) \<or> c = 133 \<or> c = 160 \<or> c = 5760 \<or>
     (8192 \<le> c \<and> c \<le> 8202) \<or> c = 8232 \<or> c = 8233 \<or> c = 8239 \<or> c = 8287 \<or>
     c = 12288"

definition py_strip :: "pystr \<Rightarrow> pystr" where
  "py_strip s = rev (dropWhile py_isspace (rev (dropWhile py_isspace s)))"

text \<open>
  \<^verbatim>\<open>str.upper()\<close> and \<^verbatim>\<open>str.lower()\<close> map code point by code point, and one code
  point can become several. The tables below are exact on ASCII and on every
  code point whose image contains an ASCII character (17 for \<^verbatim>\<open>upper\<close>, such as
  the dotless i and the ligatures; 2 for \<^verbatim>\<open>lower\<close>, the dotted capital I and
  the Kelvin sign). Every other code point is kept as it is: its image in Python
  has no ASCII character, no digit and no whitespace, and the script only ever
  passes the result to \<^verbatim>\<open>float\<close>, which refuses such a character, or compares
  it with the sentinels, which are caseless.
\<close>

definition upper_cp :: "nat \<Rightarrow> nat list" where
  "upper_cp c =
     (if 97 \<le> c \<and> c \<le> 122 then [c - 32]
      else if c = 223 then [83, 83]
      else if c = 305 then [73]
      else if c = 329 then [700, 78]
      else if c = 383 then [83]
      else if c = 496 then [74, 780]
      else if c = 7830 then [72, 817]
      else if c = 7831 then [84, 776]
      else if c = 7832 then [87, 778]
      else if c = 7833 then [89, 778]
      else if c = 7834 then [65, 702]
      else if c = 64256 then [70, 70]
      else if c = 64257 then [70, 73]
      else if c = 64258 then [70, 76]
      else if c = 64259 then [70, 70, 73]
      else if c = 64260 then [70, 70, 76]
      else if c = 64261 then [83, 84]
      else if c = 64262 then [83, 84]
      else [c])"

definition lower_cp :: "nat \<Rightarrow> nat list" where
  "lower_cp c =
     (if 65 \<le> c \<and> c \<le> 90 then [c + 32]
      else if c = 304 then [105, 775]
      else if c = 8490 then [107]
      else [c])"

definition py_upper :: "pystr \<Rightarrow> pystr" where
  "py_upper s = concat (map upper_cp s)"

definition py_lower :: "pystr \<Rightarrow> pystr" where
  "py_lower s = concat (map lower_cp s)"

text \<open>\<^verbatim>\<open>s.replace(c, '')\<close> for a one-character \<open>c\<close> deletes every occurrence of it.\<close>

definition py_remove :: "nat \<Rightarrow> pystr \<Rightarrow> pystr" where
  "py_remove c s = filter (\<lambda>x. x \<noteq> c) s"

subsection \<open>Doubles\<close>

text \<open>
  IEEE 754 fixes the result of a decimal conversion and of a multiplication,
  an addition or a division: the exact result rounded to the nearest double, ties
  to the even significand, and an infinity from \<open>2 ^ 1024\<close> on. \<open>round64\<close> is that
  rounding; below \<open>2 ^ -1022\<close> the doubles are the multiples of \<open>2 ^ -1074\<close>.
\<close>

definition ilog2 :: "rat \<Rightarrow> int" where
  "ilog2 a =
     (let (n, d) = quotient_of a;
          k = bitlen n - bitlen d
      in if 2 powi k \<le> a then k else k - 1)"

definition round_half_even :: "rat \<Rightarrow> int" where
  "round_half_even m =
     (let f = \<lfloor>m\<rfloor>; r = m - of_int f
      in if r < 1 / 2 then f
         else if 1 / 2 < r then f + 1
         else if even f then f else f + 1)"

definition round64_abs :: "rat \<Rightarrow> rat" where
  "round64_abs a =
     (let e = max (ilog2 a) (- 1022);
          u = 2 powi (e - 52)
      in of_int (round_half_even (a / u)) * u)"

definition round64 :: "rat \<Rightarrow> rat npfloat" where
  "round64 q =
     (if q = 0 then Finite 0
      else let r = round64_abs \<bar>q\<bar>
           in if 2 ^ 1024 \<le> r then (if q < 0 then NegInf else PosInf)
              else Finite (if q < 0 then - r else r))"

text \<open>Arithmetic of doubles, as far as the script uses it.\<close>

fun fmul :: "rat npfloat \<Rightarrow> rat \<Rightarrow> rat npfloat" where
  "fmul (Finite a) c = round64 (a * c)"
| "fmul PosInf c = (if 0 < c then PosInf else if c < 0 then NegInf else NaN)"
| "fmul NegInf c = (if 0 < c then NegInf else if c < 0 then PosInf else NaN)"
| "fmul NaN c = NaN"

fun fadd :: "rat npfloat \<Rightarrow> rat npfloat \<Rightarrow> rat npfloat" where
  "fadd (Finite a) (Finite b) = round64 (a + b)"
| "fadd NaN y = NaN"
| "fadd x NaN = NaN"
| "fadd PosInf NegInf = NaN"
| "fadd NegInf PosInf = NaN"
| "fadd PosInf y = PosInf"
| "fadd NegInf y = NegInf"
| "fadd x PosInf = PosInf"
| "fadd x NegInf = NegInf"

fun fdiv_nat :: "rat npfloat \<Rightarrow> nat \<Rightarrow> rat npfloat" where
  "fdiv_nat (Finite a) n = (if n = 0 then NaN else round64 (a / of_nat n))"
| "fdiv_nat x n = x"

text \<open>
  The comparison \<^verbatim>\<open>>=\<close> of doubles: false as soon as one side is NaN.
\<close>

fun fge :: "'a::linorder npfloat \<Rightarrow> 'a npfloat \<Rightarrow> bool" where
  "fge NaN y = False"
| "fge x NaN = False"
| "fge PosInf y = True"
| "fge x NegInf = True"
| "fge NegInf y = False"
| "fge x PosInf = False"
| "fge (Finite a) (Finite b) = (b \<le> a)"

subsection \<open>The conversion \<^verbatim>\<open>float(s)\<close>\<close>

text \<open>
  CPython first turns every whitespace character above ASCII into a blank, every
  Unicode decimal digit into its ASCII digit and every other code point above
  ASCII into a question mark. The decimal digits come in blocks of ten; the list
  holds the zero of each block (Unicode 14).
\<close>

definition nd_zeros :: "nat list" where
  "nd_zeros =
     [1632, 1776, 1984, 2406, 2534, 2662, 2790, 2918, 3046, 3174, 3302, 3430, 3558,
      3664, 3792, 3872, 4160, 4240, 6112, 6160, 6470, 6608, 6784, 6800, 6992, 7088,
      7232, 7248, 42528, 43216, 43264, 43472, 43504, 43600, 44016, 65296, 66720,
      68912, 69734, 69872, 69942, 70096, 70384, 70736, 70864, 71248, 71360, 71472,
      71904, 72016, 72784, 73040, 73120, 92768, 92864, 93008, 120782, 120792,
      120802, 120812, 120822, 123200, 123632, 125264, 130032]"

definition float_ascii :: "nat \<Rightarrow> nat" where
  "float_ascii c =
     (if c < 128 then c
      else if py_isspace c then 32
      else case filter (\<lambda>z. z \<le> c \<and> c \<le> z + 9) nd_zeros of
             [] \<Rightarrow> 63
           | z # _ \<Rightarrow> 48 + (c - z))"

definition is_c_space :: "nat \<Rightarrow> bool" where
  "is_c_space c \<longleftrightarrow> (9 \<le> c \<and> c \<le> 13) \<or> c = 32"

definition is_digit :: "nat \<Rightarrow> bool" where
  "is_digit c \<longleftrightarrow> 48 \<le> c \<and> c \<le> 57"

definition digits_val :: "pystr \<Rightarrow> int" where
  "digits_val ds = foldl (\<lambda>a d. 10 * a + (int d - 48)) 0 ds"

text \<open>
  An underscore may stand between two digits and nowhere else; \<open>prev\<close> is the
  character before the one looked at, 0 at the start.
\<close>

fun underscores_ok :: "nat \<Rightarrow> pystr \<Rightarrow> bool" where
  "underscores_ok prev [] = (prev \<noteq> 95)"
| "underscores_ok prev (c # cs) =
     (if c = 95 then is_digit prev \<and> underscores_ok c cs
      else if prev = 95 then is_digit c \<and> underscores_ok c cs
      else underscores_ok c cs)"

definition split_sign :: "pystr \<Rightarrow> bool \<times> pystr" where
  "split_sign t =
     (case t of
        [] \<Rightarrow> (False, [])
      | c # cs \<Rightarrow> if c = 45 then (True, cs) else if c = 43 then (False, cs) else (False, t))"

text \<open>The exponent part, on lower-case text: nothing, or \<open>e\<close>, a sign and digits.\<close>

definition parse_exponent :: "pystr \<Rightarrow> int option" where
  "parse_exponent r =
     (case r of
        [] \<Rightarrow> Some 0
      | c # cs \<Rightarrow>
          if c = 101 then
            (let (neg, ds) = split_sign cs
             in if ds \<noteq> [] \<and> list_all is_digit ds
                then Some (if neg then - digits_val ds else digits_val ds)
                else None)
          else None)"

text \<open>
  The grammar of a float literal, on lower-case text without blanks around it and
  without underscores: a sign, then \<open>inf\<close>, \<open>infinity\<close>, \<open>nan\<close> or a decimal
  number with at least one digit and an optional exponent. The value is the
  decimal number rounded to a double.
\<close>

definition parse_float_body :: "pystr \<Rightarrow> rat npfloat option" where
  "parse_float_body t =
     (let (neg, r) = split_sign t
      in if r = ascii ''inf'' \<or> r = ascii ''infinity'' then Some (if neg then NegInf else PosInf)
         else if r = ascii ''nan'' then Some NaN
         else
           let ip = takeWhile is_digit r;
               r1 = dropWhile is_digit r;
               dot = (r1 \<noteq> [] \<and> hd r1 = 46);
               fp = (if dot then takeWhile is_digit (tl r1) else []);
               r2 = (if dot then dropWhile is_digit (tl r1) else r1)
           in if ip = [] \<and> fp = [] then None
              else case parse_exponent r2 of
                     None \<Rightarrow> None
                   | Some e \<Rightarrow>
                       Some (round64 ((if neg then - 1 else 1) * of_int (digits_val (ip @ fp))
                                      * 10 powi (e - int (length fp)))))"

definition py_float :: "pystr \<Rightarrow> rat npfloat option" where
  "py_float s =
     (let t = rev (dropWhile is_c_space (rev (dropWhile is_c_space (map float_ascii s))))
      in if t = [] then None
         else if underscores_ok 0 t then parse_float_body (map (\<lambda>c. hd (lower_cp c)) (py_remove 95 t))
         else None)"

section \<open>Loading and cleaning\<close>

subsection \<open>The review-count parser \<^verbatim>\<open>clean_reviews\<close>\<close>

text \<open>
  \<^verbatim>\<open>pd.api.types.is_numeric_dtype\<close> looks at the \<^verbatim>\<open>dtype\<close> of its argument. An
  array, a column or a NumPy scalar has one; a Python \<^verbatim>\<open>int\<close>, \<^verbatim>\<open>float\<close>,
  \<^verbatim>\<open>bool\<close> or \<^verbatim>\<open>None\<close> has none and is not the name of a dtype either, and the
  test answers \<^verbatim>\<open>False\<close> for it.
\<close>

definition is_numeric_dtype :: "pyval \<Rightarrow> bool" where
  "is_numeric_dtype v = (case v of NpInt n \<Rightarrow> True | NpFloat x \<Rightarrow> True | _ \<Rightarrow> False)"

text \<open>
  The sentinels \<^verbatim>\<open>('0', '\<dots>', '\<dots>', '')\<close> of line 44: the second is the
  three ideographs U+65E0 U+8BC4 U+8BBA ("no reviews"), the third is U+65E0
  ("none").
\<close>

definition no_review_sentinels :: "pystr list" where
  "no_review_sentinels = [ascii ''0'', [26080, 35780, 35770], [26080], []]"

text \<open>75 is \<open>K\<close>, 107 is \<open>k\<close>, 44 is the comma.\<close>

definition clean_reviews :: "pyval \<Rightarrow> pyval" where
  "clean_reviews review_str =
     (case review_str of
        PStr s \<Rightarrow>
          (let t = py_strip s
           in if 75 \<in> set t \<or> 107 \<in> set t then
                (case py_float (py_remove 75 (py_upper t)) of
                   Some x \<Rightarrow> PFloat (fmul x 1000)
                 | None \<Rightarrow> PInt 0)
              else if py_lower t \<in> set no_review_sentinels then PInt 0
              else
                (case py_float (py_remove 44 t) of
                   Some x \<Rightarrow> PFloat x
                 | None \<Rightarrow> PInt 0))
      | _ \<Rightarrow> if is_numeric_dtype review_str then review_str else PInt 0)"

subsection \<open>The cast \<^verbatim>\<open>.astype(int)\<close>\<close>

text \<open>
  \<^verbatim>\<open>Series.apply\<close> gathers the results in a column: of 64-bit integers when
  every result is an integer, of doubles otherwise. The cast of an integer column
  changes nothing. The cast of a double column raises \<^verbatim>\<open>IntCastingNaNError\<close>
  when a value is NaN or infinite, and cuts the fraction off otherwise; a double
  outside the 64-bit range has no defined result (\<open>UndefinedCast\<close>), and the model
  stops there.
\<close>

datatype py_error = IntCastingNaNError | UndefinedCast | ZeroDivisionError

definition in_int64 :: "int \<Rightarrow> bool" where
  "in_int64 n \<longleftrightarrow> - (2 ^ 63) \<le> n \<and> n < 2 ^ 63"

definition trunc_rat :: "rat \<Rightarrow> int" where
  "trunc_rat q = (if 0 \<le> q then \<lfloor>q\<rfloor> else \<lceil>q\<rceil>)"

fun is_finite :: "'a npfloat \<Rightarrow> bool" where
  "is_finite (Finite a) = True"
| "is_finite x = False"

fun trunc_float :: "rat npfloat \<Rightarrow> int" where
  "trunc_float (Finite a) = trunc_rat a"
| "trunc_float x = 0"

fun is_int_obj :: "pyval \<Rightarrow> bool" where
  "is_int_obj (PInt n) = True"
| "is_int_obj (NpInt n) = True"
| "is_int_obj v = False"

fun int_of_obj :: "pyval \<Rightarrow> int" where
  "int_of_obj (PInt n) = n"
| "int_of_obj (NpInt n) = n"
| "int_of_obj v = 0"

fun float_of_obj :: "pyval \<Rightarrow> rat npfloat" where
  "float_of_obj (PInt n) = round64 (of_int n)"
| "float_of_obj (NpInt n) = round64 (of_int n)"
| "float_of_obj (PFloat x) = x"
| "float_of_obj (NpFloat x) = x"
| "float_of_obj (PBool b) = Finite (if b then 1 else 0)"
| "float_of_obj v = NaN"

definition astype_int :: "pyval list \<Rightarrow> py_error + int list" where
  "astype_int col =
     (if list_all is_int_obj col then Inr (map int_of_obj col)
      else
        let xs = map float_of_obj col
        in if list_ex (\<lambda>x. \<not> is_finite x) xs then Inl IntCastingNaNError
           else if list_ex (\<lambda>x. \<not> in_int64 (trunc_float x)) xs then Inl UndefinedCast
           else Inr (map trunc_float xs))"

text \<open>
  The parser on one cell, which the specification calls \<^verbatim>\<open>parse_review_count\<close>:
  a column of that one cell, cleaned and cast.
\<close>

definition parse_review_count :: "pyval \<Rightarrow> py_error + int" where
  "parse_review_count v =
     (case astype_int [clean_reviews v] of
        Inl e \<Rightarrow> Inl e
      | Inr ns \<Rightarrow> Inr (hd ns))"

subsection \<open>The rating\<close>

text \<open>
  Line 59 replaces four texts by NaN and hands the column to
  \<^verbatim>\<open>pd.to_numeric(errors='coerce')\<close>. The texts are U+65E0 U+8BC4 U+5206 ("no
  rating"), U+65E0, \<^verbatim>\<open>None\<close> and U+65E0 U+7B49 U+7EA7 ("no grade"). The
  recogniser of numbers in text is pandas' own and is a parameter, \<open>text_number\<close>:
  the number a text stands for, or nothing. With \<^verbatim>\<open>coerce\<close>, nothing becomes NaN.
\<close>

definition no_rating_sentinels :: "pystr list" where
  "no_rating_sentinels =
     [[26080, 35780, 20998], [26080], ascii ''None'', [26080, 31561, 32423]]"

definition replace_no_rating :: "pyval \<Rightarrow> pyval" where
  "replace_no_rating v =
     (case v of
        PStr s \<Rightarrow> if s \<in> set no_rating_sentinels then PFloat NaN else v
      | _ \<Rightarrow> v)"

definition to_numeric_coerce :: "(pystr \<Rightarrow> rat npfloat option) \<Rightarrow> pyval \<Rightarrow> rat npfloat" where
  "to_numeric_coerce text_number v =
     (case v of
        PStr s \<Rightarrow> (case text_number s of Some x \<Rightarrow> x | None \<Rightarrow> NaN)
      | PInt n \<Rightarrow> round64 (of_int n)
      | PFloat x \<Rightarrow> x
      | PBool b \<Rightarrow> Finite (if b then 1 else 0)
      | PNone \<Rightarrow> NaN
      | NpInt n \<Rightarrow> round64 (of_int n)
      | NpFloat x \<Rightarrow> x)"

definition normalize_rating :: "(pystr \<Rightarrow> rat npfloat option) \<Rightarrow> pyval \<Rightarrow> rat npfloat" where
  "normalize_rating text_number v = to_numeric_coerce text_number (replace_no_rating v)"

subsection \<open>The derived columns\<close>

text \<open>
  \<^verbatim>\<open>np.log10\<close> and \<^verbatim>\<open>np.sqrt\<close> of a 64-bit integer column: NaN below zero, minus
  infinity for the logarithm of zero. The finite values are the real logarithm
  and root; NumPy returns the doubles next to them, and that last rounding is
  not modelled. Adding 1 to the largest 64-bit integer wraps around.
\<close>

definition add1_int64 :: "int \<Rightarrow> int" where
  "add1_int64 n = (if n = 2 ^ 63 - 1 then - (2 ^ 63) else n + 1)"

definition np_log10 :: "int \<Rightarrow> real npfloat" where
  "np_log10 n = (if 0 < n then Finite (log 10 (of_int n)) else if n = 0 then NegInf else NaN)"

definition np_sqrt :: "int \<Rightarrow> real npfloat" where
  "np_sqrt n = (if 0 \<le> n then Finite (sqrt (of_int n)) else NaN)"

fun fplus :: "real npfloat \<Rightarrow> real \<Rightarrow> real npfloat" where
  "fplus (Finite a) c = Finite (a + c)"
| "fplus x c = x"

subsection \<open>\<^verbatim>\<open>load_and_clean_data\<close>\<close>

text \<open>
  A row of the spreadsheet has the columns U+6807 U+9898 (title), U+7B49 U+7EA7
  (rating) and U+8BC4 U+8BBA U+6570 (number of reviews); the cleaned table adds
  the four columns of lines 56 to 64. The field names are those of the
  specification's data model.
\<close>

record product_row =
  title :: pyval
  rating_raw :: pyval
  review_count_raw :: pyval

record cleaned_row = product_row +
  review_count :: int
  rating :: "rat npfloat"
  review_count_log10 :: "real npfloat"
  bubble_size :: "real npfloat"

datatype file_state = Missing | Unreadable | Table "product_row list"

definition add_columns :: "(pystr \<Rightarrow> rat npfloat option) \<Rightarrow> product_row \<Rightarrow> int \<Rightarrow> cleaned_row" where
  "add_columns text_number row n =
     product_row.extend row
       (cleaned_row.fields n (normalize_rating text_number (rating_raw row))
          (np_log10 (add1_int64 n)) (fplus (np_sqrt n) 10))"

definition load_and_clean_data ::
    "(pystr \<Rightarrow> rat npfloat option) \<Rightarrow> file_state \<Rightarrow> py_error + cleaned_row list" where
  "load_and_clean_data text_number file =
     (case file of
        Missing \<Rightarrow> Inr []
      | Unreadable \<Rightarrow> Inr []
      | Table df \<Rightarrow>
          (case astype_int (map (\<lambda>row. clean_reviews (review_count_raw row)) df) of
             Inl e \<Rightarrow> Inl e
           | Inr counts \<Rightarrow>
               Inr (filter (\<lambda>x. rating x \<noteq> NaN)
                      (map2 (add_columns text_number) df counts))))"

section \<open>Filter and key figures\<close>

definition df_filtered ::
    "cleaned_row list \<Rightarrow> rat npfloat \<Rightarrow> real npfloat \<Rightarrow> cleaned_row list" where
  "df_filtered df_original min_rating_slider min_reviews_log =
     filter (\<lambda>x. fge (rating x) min_rating_slider \<and> fge (review_count_log10 x) min_reviews_log)
       df_original"

text \<open>
  \<^verbatim>\<open>Series.mean()\<close> skips NaN, adds the values and divides by their number. The
  sum runs from left to right, which is NumPy's order for fewer than eight
  values; longer columns are added in blocks, and the last bits of the sum can
  differ there.
\<close>

definition series_mean :: "rat npfloat list \<Rightarrow> rat npfloat" where
  "series_mean xs =
     (let ys = filter (\<lambda>x. x \<noteq> NaN) xs
      in if ys = [] then NaN else fdiv_nat (foldl fadd (Finite 0) ys) (length ys))"

fun series_max :: "int list \<Rightarrow> int option" where
  "series_max [] = None"
| "series_max (x # xs) = Some (foldl max x xs)"

definition py_truediv :: "int \<Rightarrow> int \<Rightarrow> py_error + rat npfloat" where
  "py_truediv a b = (if b = 0 then Inl ZeroDivisionError else Inr (round64 (of_int a / of_int b)))"

text \<open>
  The key figures of lines 116 to 144, before they are formatted: the number of
  filtered rows, their share of all rows in percent, the two average ratings and
  the largest review count, \<open>None\<close> standing for the text \<^verbatim>\<open>N/A\<close>. The integer 0
  of line 119 and the double 0.0 are one value.
\<close>

record kpis =
  n_filtered :: nat
  percent_of_total :: "rat npfloat"
  avg_rating_filtered :: "rat npfloat"
  avg_rating_original :: "rat npfloat"
  max_reviews :: "int option"

datatype run = Stopped | Crashed py_error | Rendered kpis

definition key_figures ::
    "cleaned_row list \<Rightarrow> cleaned_row list \<Rightarrow> py_error + kpis" where
  "key_figures df_original filtered =
     (case py_truediv (int (length filtered)) (int (length df_original)) of
        Inl e \<Rightarrow> Inl e
      | Inr share \<Rightarrow>
          Inr \<lparr>n_filtered = length filtered,
               percent_of_total = fmul share 100,
               avg_rating_filtered =
                 (if filtered \<noteq> [] then series_mean (map rating filtered) else Finite 0),
               avg_rating_original = series_mean (map rating df_original),
               max_reviews =
                 (if filtered \<noteq> [] then series_max (map review_count filtered) else None)\<rparr>)"

text \<open>
  The script from line 73 on: it stops when the cleaned table is empty, and
  otherwise filters with the two slider values and computes the key figures.
\<close>

definition dashboard :: "cleaned_row list \<Rightarrow> rat npfloat \<Rightarrow> real npfloat \<Rightarrow> run" where
  "dashboard df_original min_rating_slider min_reviews_log =
     (if df_original = [] then Stopped
      else case key_figures df_original
                  (df_filtered df_original min_rating_slider min_reviews_log) of
             Inl e \<Rightarrow> Crashed e
           | Inr k \<Rightarrow> Rendered k)"

section \<open>The scenario of the specification\<close>

text \<open>
  Three rows: A rated 4.5 with the review text \<^verbatim>\<open>100\<close>, B with the "no rating"
  sentinel and \<^verbatim>\<open>50\<close>, C rated 4.0 with \<^verbatim>\<open>2K\<close>. \<open>example_cleaned\<close> is the table
  that cleaning makes of them.
\<close>

definition example_rows :: "product_row list" where
  "example_rows =
     [\<lparr>title = PStr (ascii ''A''), rating_raw = PFloat (Finite (9 / 2)),
        review_count_raw = PStr (ascii ''100'')\<rparr>,
      \<lparr>title = PStr (ascii ''B''), rating_raw = PStr [26080, 35780, 20998],
        review_count_raw = PStr (ascii ''50'')\<rparr>,
      \<lparr>title = PStr (ascii ''C''), rating_raw = PFloat (Finite 4),
        review_count_raw = PStr (ascii ''2K'')\<rparr>]"

definition example_cleaned :: "cleaned_row list" where
  "example_cleaned =
     [\<lparr>title = PStr (ascii ''A''), rating_raw = PFloat (Finite (9 / 2)),
        review_count_raw = PStr (ascii ''100''), review_count = 100,
        rating = Finite (9 / 2), review_count_log10 = Finite (log 10 101),
        bubble_size = Finite (sqrt 100 + 10)\<rparr>,
      \<lparr>title = PStr (ascii ''C''), rating_raw = PFloat (Finite 4),
        review_count_raw = PStr (ascii ''2K''), review_count = 2000,
        rating = Finite 4, review_count_log10 = Finite (log 10 2001),
        bubble_size = Finite (sqrt 2000 + 10)\<rparr>]"


section \<open>Rounding to a double\<close>

text \<open>\<open>ilog2\<close> is the binary exponent: the \<open>e\<close> with \<open>2 ^ e \<le> a < 2 ^ (e + 1)\<close>.\<close>

lemma powi2_unique:
  fixes a :: rat
  assumes "2 powi e \<le> a" "a < 2 powi (e + 1)" "2 powi j \<le> a" "a < 2 powi (j + 1)"
  shows "e = j"
proof (rule ccontr)
  assume "e \<noteq> j"
  then consider "e + 1 \<le> j" | "j + 1 \<le> e" by linarith
  then show False
  proof cases
    case 1
    then have "(2::rat) powi (e + 1) \<le> 2 powi j" by (intro power_int_increasing) auto
    with assms show False by linarith
  next
    case 2
    then have "(2::rat) powi (j + 1) \<le> 2 powi e" by (intro power_int_increasing) auto
    with assms show False by linarith
  qed
qed

lemma ilog2_bounds:
  assumes "0 < a"
  shows "2 powi (ilog2 a) \<le> a \<and> a < 2 powi (ilog2 a + 1)"
proof -
  obtain n d where nd: "quotient_of a = (n, d)" by (cases "quotient_of a")
  then have d: "0 < d" and a: "a = of_int n / of_int d"
    using quotient_of_denom_pos quotient_of_div by blast+
  with assms have n: "0 < n"
    by (simp add: zero_less_divide_iff)
  define bn where "bn = bitlen n"
  define bd where "bd = bitlen d"
  have bn1: "1 \<le> bn" and bd1: "1 \<le> bd"
    using n d unfolding bn_def bd_def by (auto simp: bitlen_alt_def)
  have nb: "2 ^ nat (bn - 1) \<le> n" "n < 2 ^ nat bn"
    using bitlen_bounds[OF n] by (auto simp: bn_def)
  have db: "2 ^ nat (bd - 1) \<le> d" "d < 2 ^ nat bd"
    using bitlen_bounds[OF d] by (auto simp: bd_def)
  have nr: "(2::rat) powi (bn - 1) \<le> of_int n" "(of_int n :: rat) < 2 powi bn"
  proof -
    have "(of_int (2 ^ nat (bn - 1)) :: rat) \<le> of_int n" using nb(1) by (simp only: of_int_le_iff)
    then show "(2::rat) powi (bn - 1) \<le> of_int n" using bn1 by (simp add: power_int_def)
    have "(of_int n :: rat) < of_int (2 ^ nat bn)" using nb(2) by (simp only: of_int_less_iff)
    then show "(of_int n :: rat) < 2 powi bn" using bn1 by (simp add: power_int_def)
  qed
  have dr: "(2::rat) powi (bd - 1) \<le> of_int d" "(of_int d :: rat) < 2 powi bd"
  proof -
    have "(of_int (2 ^ nat (bd - 1)) :: rat) \<le> of_int d" using db(1) by (simp only: of_int_le_iff)
    then show "(2::rat) powi (bd - 1) \<le> of_int d" using bd1 by (simp add: power_int_def)
    have "(of_int d :: rat) < of_int (2 ^ nat bd)" using db(2) by (simp only: of_int_less_iff)
    then show "(of_int d :: rat) < 2 powi bd" using bd1 by (simp add: power_int_def)
  qed
  have dpos: "(0::rat) < of_int d" using d by simp
  have up: "a < 2 powi (bn - bd + 1)"
  proof -
    have "of_int n < (2::rat) powi bn" by (rule nr(2))
    also have "\<dots> = 2 powi (bn - bd + 1) * 2 powi (bd - 1)"
      by (simp flip: power_int_add)
    also have "\<dots> \<le> 2 powi (bn - bd + 1) * of_int d"
      by (intro mult_left_mono dr(1)) simp
    finally show ?thesis using dpos by (simp add: a pos_divide_less_eq)
  qed
  have lo: "2 powi (bn - bd - 1) \<le> a"
  proof -
    have "(2::rat) powi (bn - bd - 1) * of_int d \<le> 2 powi (bn - bd - 1) * 2 powi bd"
      by (intro mult_left_mono) (use dr(2) in auto)
    also have "\<dots> = 2 powi (bn - 1)"
      by (simp flip: power_int_add)
    also have "\<dots> \<le> of_int n" by (rule nr(1))
    finally show ?thesis using dpos by (simp add: a pos_le_divide_eq)
  qed
  show ?thesis
  proof (cases "2 powi (bn - bd) \<le> a")
    case True
    then have "ilog2 a = bn - bd" by (simp add: ilog2_def nd bn_def bd_def)
    with True up show ?thesis by simp
  next
    case False
    then have "ilog2 a = bn - bd - 1" by (simp add: ilog2_def nd bn_def bd_def)
    with False lo show ?thesis by simp
  qed
qed

lemma ilog2_eqI:
  assumes "2 powi e \<le> a" "a < 2 powi (e + 1)"
  shows "ilog2 a = e"
proof -
  have "0 < (2::rat) powi e" by simp
  with assms have "0 < a" by linarith
  from ilog2_bounds[OF this] assms show ?thesis
    using powi2_unique by blast
qed

text \<open>
  How a positive number is rounded, once its exponent \<open>e\<close> and the significand \<open>n\<close>
  next to it are known. The lemma evaluates \<open>round64\<close> on concrete numbers.
\<close>

lemma round_half_even_eqI:
  assumes "of_int n - 1 / 2 < m" and "m < of_int n + 1 / 2"
  shows "round_half_even m = n"
proof (cases "of_int n \<le> m")
  case True
  then have f: "\<lfloor>m\<rfloor> = n" using assms(2) by (intro floor_unique) auto
  show ?thesis using assms(2) by (simp add: round_half_even_def f Let_def)
next
  case False
  then have f: "\<lfloor>m\<rfloor> = n - 1" using assms(1) by (intro floor_unique) auto
  show ?thesis using assms(1) by (simp add: round_half_even_def f Let_def)
qed

lemma round64_eval:
  assumes "2 powi e \<le> q" and "q < 2 powi (e + 1)" and "- 1022 \<le> e"
    and "of_int n - 1 / 2 < q / 2 powi (e - 52)"
    and "q / 2 powi (e - 52) < of_int n + 1 / 2"
    and "r = of_int n * 2 powi (e - 52)"
    and "r < 2 ^ 1024"
  shows "round64 q = Finite r"
proof -
  have "0 < (2::rat) powi e" by simp
  with assms(1) have q: "0 < q" by linarith
  have e: "ilog2 q = e" using assms(1,2) by (rule ilog2_eqI)
  have n: "round_half_even (q / 2 powi (e - 52)) = n"
    using assms(4,5) by (rule round_half_even_eqI)
  have "round64_abs \<bar>q\<bar> = r"
    using q assms(3,6) by (simp add: round64_abs_def e n Let_def max_def)
  with q assms(7) show ?thesis by (simp add: round64_def Let_def)
qed

section \<open>The parser on the texts of the specification\<close>

lemma round64_minus:
  assumes "0 < q" and "round64 q = Finite r"
  shows "round64 (- q) = Finite (- r)"
  using assms by (simp add: round64_def Let_def split: if_splits)

lemma round64_100: "round64 100 = Finite 100"
  by (rule round64_eval[where e=6 and n="100 * 2 ^ 46"]) (simp_all add: power_int_def power_divide)

lemma round64_1234: "round64 1234 = Finite 1234"
  by (rule round64_eval[where e=10 and n="1234 * 2 ^ 42"]) (simp_all add: power_int_def power_divide)

lemma round64_50: "round64 50 = Finite 50"
  by (rule round64_eval[where e=5 and n="50 * 2 ^ 47"]) (simp_all add: power_int_def power_divide)

lemma round64_2: "round64 2 = Finite 2"
  by (rule round64_eval[where e=1 and n="2 * 2 ^ 51"]) (simp_all add: power_int_def power_divide)

lemma round64_2000: "round64 2000 = Finite 2000"
  by (rule round64_eval[where e=10 and n="2000 * 2 ^ 42"]) (simp_all add: power_int_def power_divide)

lemma round64_5: "round64 5 = Finite 5"
  by (rule round64_eval[where e=2 and n="5 * 2 ^ 50"]) (simp_all add: power_int_def power_divide)

lemma round64_12: "round64 12 = Finite 12"
  by (rule round64_eval[where e=3 and n="12 * 2 ^ 49"]) (simp_all add: power_int_def power_divide)

lemma round64_12000: "round64 12000 = Finite 12000"
  by (rule round64_eval[where e=13 and n="12000 * 2 ^ 39"]) (simp_all add: power_int_def power_divide)

lemma round64_3_4: "round64 (17 / 5) = Finite (7656119366529843 / 2251799813685248)"
  by (rule round64_eval[where e=1 and n=7656119366529843]) (simp_all add: power_int_def power_divide)

lemma round64_3400: "round64 (957014920816230375 / 281474976710656) = Finite 3400"
  by (rule round64_eval[where e=11 and n="3400 * 2 ^ 41"]) (simp_all add: power_int_def power_divide)

lemma round64_m5: "round64 (- 5) = Finite (- 5)"
  using round64_minus[OF _ round64_5] by simp

lemmas clean_defs = clean_reviews_def py_strip_def py_isspace_def py_upper_def upper_cp_def
  py_lower_def no_review_sentinels_def
  py_float_def float_ascii_def is_c_space_def py_remove_def lower_cp_def
  parse_float_body_def split_sign_def parse_exponent_def digits_val_def is_digit_def ascii_def
  Let_def

lemma clean_3_4K: "clean_reviews (PStr (ascii ''3.4K'')) = PFloat (Finite 3400)"
  by (simp add: clean_defs power_int_def round64_3_4 round64_3400)

lemma clean_1_234: "clean_reviews (PStr (ascii ''1,234'')) = PFloat (Finite 1234)"
  by (simp add: clean_defs round64_1234)

lemma clean_wu: "clean_reviews (PStr [26080]) = PInt 0"
  by (simp add: clean_defs)

lemma clean_empty: "clean_reviews (PStr []) = PInt 0"
  by (simp add: clean_defs)

lemma clean_abc: "clean_reviews (PStr (ascii ''abc'')) = PInt 0"
  by (simp add: clean_defs)

lemma clean_1K2: "clean_reviews (PStr (ascii ''1K2'')) = PFloat (Finite 12000)"
  by (simp add: clean_defs round64_12 round64_12000)

lemma clean_m5: "clean_reviews (PStr (ascii ''-5'')) = PFloat (Finite (- 5))"
  by (simp add: clean_defs round64_m5)

lemma clean_100: "clean_reviews (PStr (ascii ''100'')) = PFloat (Finite 100)"
  by (simp add: clean_defs round64_100)

lemma clean_50: "clean_reviews (PStr (ascii ''50'')) = PFloat (Finite 50)"
  by (simp add: clean_defs round64_50)

lemma clean_2K: "clean_reviews (PStr (ascii ''2K'')) = PFloat (Finite 2000)"
  by (simp add: clean_defs round64_2 round64_2000)

lemma clean_inf: "clean_reviews (PStr (ascii ''inf'')) = PFloat PosInf"
  by (simp add: clean_defs)

section \<open>The cast and the added columns\<close>

lemma add_columns_sel:
  "review_count (add_columns tn row n) = n"
  "rating (add_columns tn row n) = normalize_rating tn (rating_raw row)"
  "review_count_log10 (add_columns tn row n) = np_log10 (add1_int64 n)"
  "bubble_size (add_columns tn row n) = fplus (np_sqrt n) 10"
  "title (add_columns tn row n) = title row"
  "rating_raw (add_columns tn row n) = rating_raw row"
  "review_count_raw (add_columns tn row n) = review_count_raw row"
  "product_row.truncate (add_columns tn row n) = row"
  by (simp_all add: add_columns_def product_row.defs cleaned_row.defs)

lemma astype_int_length: "astype_int col = Inr ns \<Longrightarrow> length ns = length col"
  by (auto simp: astype_int_def Let_def split: if_splits)

lemma astype_int_zero:
  assumes "astype_int col = Inr ns" and "i < length col" and "col ! i = PInt 0"
  shows "ns ! i = 0"
  using assms by (auto simp: astype_int_def Let_def round64_def trunc_rat_def split: if_splits)

lemma astype_int_single_float:
  "astype_int [PFloat (Finite q)] =
     (if in_int64 (trunc_rat q) then Inr [trunc_rat q] else Inl UndefinedCast)"
  by (simp add: astype_int_def)

lemma astype_int_single_zero: "astype_int [PInt 0] = Inr [0]"
  by (simp add: astype_int_def)

lemma clean_reviews_not_text:
  assumes "\<forall>s. v \<noteq> PStr s" and "\<not> is_numeric_dtype v"
  shows "clean_reviews v = PInt 0"
  using assms by (cases v) (auto simp: clean_reviews_def)

lemma parse_3_4K: "parse_review_count (PStr (ascii ''3.4K'')) = Inr 3400"
  by (simp add: parse_review_count_def clean_3_4K astype_int_single_float in_int64_def trunc_rat_def)

lemma parse_m5: "parse_review_count (PStr (ascii ''-5'')) = Inr (- 5)"
  by (simp add: parse_review_count_def clean_m5 astype_int_single_float in_int64_def trunc_rat_def)

lemma parse_inf: "parse_review_count (PStr (ascii ''inf'')) = Inl IntCastingNaNError"
  by (simp add: parse_review_count_def clean_inf astype_int_def)

section \<open>The filter\<close>

lemma fge_trans: "fge a b \<Longrightarrow> fge b c \<Longrightarrow> fge a c"
  by (cases a; cases b; cases c) auto

lemma fge_refl: "x \<noteq> NaN \<Longrightarrow> fge x x"
  by (cases x) auto

lemma length_filter_mono:
  "(\<And>x. x \<in> set xs \<Longrightarrow> P x \<Longrightarrow> Q x) \<Longrightarrow> length (filter P xs) \<le> length (filter Q xs)"
  by (induction xs) auto

lemma count_list_filter:
  "count_list (filter P xs) x = (if P x then count_list xs x else 0)"
  by (induction xs) auto

lemma df_filtered_example_all:
  "df_filtered example_cleaned (Finite 4) (Finite 0) = example_cleaned"
  by (simp add: df_filtered_def example_cleaned_def)

lemma df_filtered_example_none:
  "df_filtered example_cleaned (Finite 5) (Finite 0) = []"
  by (simp add: df_filtered_def example_cleaned_def)

text \<open>
  Claim C3. The filter returns exactly the rows of the cleaned table whose rating
  is at least \<open>r\<close> and whose logarithmic review count is at least \<open>l\<close>: a row is
  in the result if and only if it is in the table and passes both comparisons,
  the result keeps the order of the table, and every row appears as often as in
  the table. Both comparisons are inclusive: a row that sits exactly on both
  thresholds is kept. When no row passes, the result is the empty list. The
  result is a function of the table and the two thresholds alone.
\<close>

theorem df_filtered_exact:
  "(\<forall>x. x \<in> set (df_filtered D r l) \<longleftrightarrow>
         x \<in> set D \<and> fge (rating x) r \<and> fge (review_count_log10 x) l)
   \<and> subseq (df_filtered D r l) D
   \<and> (\<forall>x. count_list (df_filtered D r l) x =
         (if fge (rating x) r \<and> fge (review_count_log10 x) l then count_list D x else 0))
   \<and> (\<forall>x\<in>set D. rating x = r \<and> review_count_log10 x = l \<and> r \<noteq> NaN \<and> l \<noteq> NaN
         \<longrightarrow> x \<in> set (df_filtered D r l))
   \<and> ((\<forall>x\<in>set D. \<not> (fge (rating x) r \<and> fge (review_count_log10 x) l))
         \<longrightarrow> df_filtered D r l = [])"
proof (intro conjI)
  show "\<forall>x. x \<in> set (df_filtered D r l) \<longleftrightarrow>
         x \<in> set D \<and> fge (rating x) r \<and> fge (review_count_log10 x) l"
    by (simp add: df_filtered_def)
  show "subseq (df_filtered D r l) D"
    by (simp add: df_filtered_def)
  show "\<forall>x. count_list (df_filtered D r l) x =
         (if fge (rating x) r \<and> fge (review_count_log10 x) l then count_list D x else 0)"
    unfolding df_filtered_def by (rule allI, rule count_list_filter)
  show "\<forall>x\<in>set D. rating x = r \<and> review_count_log10 x = l \<and> r \<noteq> NaN \<and> l \<noteq> NaN
         \<longrightarrow> x \<in> set (df_filtered D r l)"
    by (simp add: df_filtered_def fge_refl)
  show "(\<forall>x\<in>set D. \<not> (fge (rating x) r \<and> fge (review_count_log10 x) l))
         \<longrightarrow> df_filtered D r l = []"
    by (simp add: df_filtered_def filter_empty_conv)
qed

theorem df_filtered_exact_witness:
  "hd example_cleaned \<in> set example_cleaned
   \<and> rating (hd example_cleaned) = Finite (9 / 2)
   \<and> review_count_log10 (hd example_cleaned) = Finite (log 10 101)
   \<and> hd example_cleaned \<in> set (df_filtered example_cleaned (Finite (9 / 2)) (Finite (log 10 101)))
   \<and> df_filtered example_cleaned (Finite 5) (Finite 0) = []"
  using df_filtered_exact [of example_cleaned "Finite (9 / 2)" "Finite (log 10 101)"]
    df_filtered_exact [of example_cleaned "Finite 5" "Finite 0"]
  by (simp add: example_cleaned_def)

text \<open>
  Claim C9. Raising either threshold never makes the filtered table longer.
\<close>

theorem df_filtered_monotone:
  assumes "fge r' r" and "fge l' l"
  shows "length (df_filtered D r' l') \<le> length (df_filtered D r l)"
  unfolding df_filtered_def
  by (rule length_filter_mono) (use assms in \<open>auto intro: fge_trans\<close>)

theorem df_filtered_monotone_witness:
  "fge (Finite 5) (Finite (4 :: rat)) \<and> fge (Finite 0) (Finite (0 :: real))
   \<and> length (df_filtered example_cleaned (Finite 5) (Finite 0)) = 0
   \<and> length (df_filtered example_cleaned (Finite 4) (Finite 0)) = 2
   \<and> length (df_filtered example_cleaned (Finite 5) (Finite 0))
       \<le> length (df_filtered example_cleaned (Finite 4) (Finite 0))"
  using df_filtered_monotone [of "Finite 5" "Finite 4" "Finite 0" "Finite 0" example_cleaned]
  by (simp add: df_filtered_example_all df_filtered_example_none) (simp add: example_cleaned_def)

section \<open>Numbers and missing values in the review column\<close>

text \<open>
  Claim C8. A review count that is already a number should pass through
  \<^verbatim>\<open>clean_reviews\<close> unchanged, as the comment on line 52 says. The branch is
  taken only by a value that carries a NumPy dtype: the NumPy integer 341 comes
  back as 341. The numbers a table column hands to the function are Python
  numbers, for which the dtype test is false: the integer 341 and the double
  341.0 both come back as 0.
\<close>

theorem clean_reviews_python_number:
  "clean_reviews (PInt 341) = PInt 0
   \<and> parse_review_count (PInt 341) = Inr 0
   \<and> clean_reviews (PFloat (Finite 341)) = PInt 0
   \<and> parse_review_count (PFloat (Finite 341)) = Inr 0
   \<and> clean_reviews (NpInt 341) = NpInt 341
   \<and> parse_review_count (NpInt 341) = Inr 341"
  by (simp add: clean_reviews_def is_numeric_dtype_def parse_review_count_def astype_int_def)

text \<open>
  Claim C10. A value that is neither text nor accepted by the dtype test is
  cleaned to 0, and its cell becomes the review count 0; \<^verbatim>\<open>None\<close> and NaN are
  such values. A row with such a review cell and a defined rating stays in
  every table that loads, as the row extended with the review count 0, and a
  table of that one row loads.
\<close>

theorem clean_reviews_missing_is_zero:
  "((\<forall>s. v \<noteq> PStr s) \<and> \<not> is_numeric_dtype v
       \<longrightarrow> clean_reviews v = PInt 0 \<and> parse_review_count v = Inr 0)
   \<and> \<not> is_numeric_dtype PNone \<and> \<not> is_numeric_dtype (PFloat NaN)
   \<and> clean_reviews PNone = PInt 0 \<and> clean_reviews (PFloat NaN) = PInt 0
   \<and> (load_and_clean_data tn (Table df) = Inr D \<and> i < length df
        \<and> (\<forall>s. review_count_raw (df ! i) \<noteq> PStr s)
        \<and> \<not> is_numeric_dtype (review_count_raw (df ! i))
        \<and> normalize_rating tn (rating_raw (df ! i)) \<noteq> NaN
       \<longrightarrow> add_columns tn (df ! i) 0 \<in> set D)
   \<and> ((\<forall>s. review_count_raw row \<noteq> PStr s) \<and> \<not> is_numeric_dtype (review_count_raw row)
        \<and> normalize_rating tn (rating_raw row) \<noteq> NaN
       \<longrightarrow> load_and_clean_data tn (Table [row]) = Inr [add_columns tn row 0])
   \<and> review_count (add_columns tn row 0) = 0
   \<and> product_row.truncate (add_columns tn row 0) = row"
proof (intro conjI impI)
  assume a: "(\<forall>s. v \<noteq> PStr s) \<and> \<not> is_numeric_dtype v"
  then show c: "clean_reviews v = PInt 0" by (simp add: clean_reviews_not_text)
  show "parse_review_count v = Inr 0"
    by (simp add: parse_review_count_def c astype_int_single_zero)
next
  show "\<not> is_numeric_dtype PNone" "\<not> is_numeric_dtype (PFloat NaN)"
    by (simp_all add: is_numeric_dtype_def)
  show "clean_reviews PNone = PInt 0" "clean_reviews (PFloat NaN) = PInt 0"
    by (simp_all add: clean_reviews_def is_numeric_dtype_def)
next
  assume a: "load_and_clean_data tn (Table df) = Inr D \<and> i < length df
        \<and> (\<forall>s. review_count_raw (df ! i) \<noteq> PStr s)
        \<and> \<not> is_numeric_dtype (review_count_raw (df ! i))
        \<and> normalize_rating tn (rating_raw (df ! i)) \<noteq> NaN"
  let ?col = "map (\<lambda>row. clean_reviews (review_count_raw row)) df"
  from a obtain counts where cs: "astype_int ?col = Inr counts"
    and D: "D = filter (\<lambda>x. rating x \<noteq> NaN) (map2 (add_columns tn) df counts)"
    by (auto simp: load_and_clean_data_def split: sum.splits)
  have len: "length counts = length df" using astype_int_length[OF cs] by simp
  have "?col ! i = PInt 0" using a by (simp add: clean_reviews_not_text)
  then have z: "counts ! i = 0" using astype_int_zero[OF cs] a by simp
  have "map2 (add_columns tn) df counts ! i = add_columns tn (df ! i) 0"
    using a len z by simp
  then have "add_columns tn (df ! i) 0 \<in> set (map2 (add_columns tn) df counts)"
    using a len by (metis length_map length_zip min.idem nth_mem)
  then show "add_columns tn (df ! i) 0 \<in> set D"
    using a by (simp add: D add_columns_sel)
next
  assume a: "(\<forall>s. review_count_raw row \<noteq> PStr s) \<and> \<not> is_numeric_dtype (review_count_raw row)
        \<and> normalize_rating tn (rating_raw row) \<noteq> NaN"
  then have "clean_reviews (review_count_raw row) = PInt 0" by (simp add: clean_reviews_not_text)
  then show "load_and_clean_data tn (Table [row]) = Inr [add_columns tn row 0]"
    using a by (simp add: load_and_clean_data_def astype_int_single_zero add_columns_sel)
next
  show "review_count (add_columns tn row 0) = 0" by (simp add: add_columns_sel)
  show "product_row.truncate (add_columns tn row 0) = row" by (simp add: add_columns_sel)
qed

theorem clean_reviews_missing_is_zero_witness:
  "load_and_clean_data py_float
     (Table [\<lparr>title = PStr (ascii ''A''), rating_raw = PFloat (Finite 4),
               review_count_raw = PFloat NaN\<rparr>])
   = Inr [\<lparr>title = PStr (ascii ''A''), rating_raw = PFloat (Finite 4),
           review_count_raw = PFloat NaN, review_count = 0, rating = Finite 4,
           review_count_log10 = Finite 0, bubble_size = Finite 10\<rparr>]
   \<and> parse_review_count PNone = Inr 0"
  using clean_reviews_missing_is_zero [of PNone py_float "[]" "[]" 0
      "\<lparr>title = PStr (ascii ''A''), rating_raw = PFloat (Finite 4), review_count_raw = PFloat NaN\<rparr>"]
  by (simp add: is_numeric_dtype_def normalize_rating_def replace_no_rating_def
      to_numeric_coerce_def add_columns_def product_row.defs cleaned_row.defs
      np_log10_def add1_int64_def np_sqrt_def)

end
